theory Spec2Isabelle
  imports Main "HOL-Library.Sublist"
begin

section \<open>Connector utilities of \<open>ci_connector_ops/utils.py\<close>\<close>

text \<open>
  A shallow embedding of \<open>tools/ci_connector_ops/ci_connector_ops/utils.py\<close>: the
  \<open>Connector\<close> dataclass with its properties, and the functions that project a list of
  changed paths onto a set of connectors.

  Python strings are modelled as \<^typ>\<open>string\<close>, one \<^typ>\<open>char\<close> per character: a
  \<^typ>\<open>char\<close> is the code point of the character, so the model speaks about text whose
  code points are below 256. File contents are the text as \<open>open\<close> delivers it (decoded,
  newlines already translated to \<open>\n\<close>). Permission and decoding failures of the
  operating system are not modelled.
\<close>

subsection \<open>Exceptions\<close>

text \<open>
  The two exception classes the module declares, and the built-in exceptions its
  expressions can raise. \<open>YAMLError\<close> is what \<open>yaml.safe_load\<close> raises on a text that is
  not YAML.
\<close>

datatype py_error =
    ConnectorInvalidNameError
  | ConnectorVersionNotFound
  | KeyError
  | IndexError
  | TypeError
  | AttributeError
  | FileNotFoundError
  | IsADirectoryError
  | NotADirectoryError
  | YAMLError

subsection \<open>String operations of Python\<close>

text \<open>\<open>s.startswith(p)\<close>, \<open>s.endswith(p)\<close> and \<open>p in s\<close>.\<close>

fun startswith :: "string \<Rightarrow> string \<Rightarrow> bool" where
  "startswith s [] = True"
| "startswith [] (p # ps) = False"
| "startswith (x # xs) (p # ps) = (x = p \<and> startswith xs ps)"

definition endswith :: "string \<Rightarrow> string \<Rightarrow> bool" where
  "endswith s p = startswith (rev s) (rev p)"

fun py_in :: "string \<Rightarrow> string \<Rightarrow> bool" where
  "py_in p [] = (p = [])"
| "py_in p (x # xs) = (startswith (x # xs) p \<or> py_in p xs)"

text \<open>
  \<open>s.split(sep)\<close> for a separator of one character: the fields between the
  separators, in order; the result is never empty.
\<close>

fun py_split :: "char \<Rightarrow> string \<Rightarrow> string list" where
  "py_split sep [] = [[]]"
| "py_split sep (x # xs) =
     (if x = sep then [] # py_split sep xs
      else (case py_split sep xs of
              [] \<Rightarrow> [[x]]
            | w # ws \<Rightarrow> (x # w) # ws))"

text \<open>\<open>xs[i]\<close> for an index that is not negative: out of range raises \<open>IndexError\<close>.\<close>

definition py_index :: "'a list \<Rightarrow> nat \<Rightarrow> py_error + 'a" where
  "py_index xs i = (if i < length xs then Inr (xs ! i) else Inl IndexError)"

text \<open>\<open>s.replace(a, b)\<close> for patterns \<open>a\<close>, \<open>b\<close> of one character each.\<close>

definition py_replace :: "char \<Rightarrow> char \<Rightarrow> string \<Rightarrow> string" where
  "py_replace a b s = map (\<lambda>c. if c = a then b else c) s"

text \<open>
  \<open>s.strip()\<close>: the characters Python's \<open>str.isspace\<close> accepts below code point 256 are
  tab, line feed, vertical tab, form feed, carriage return, the four separators
  \<open>0x1C\<close> to \<open>0x1F\<close>, space, the next-line control \<open>0x85\<close> and the no-break space
  \<open>0xA0\<close>.
\<close>

definition isspace :: "char \<Rightarrow> bool" where
  "isspace c = (c \<in> set [CHR 0x09, CHR 0x0A, CHR 0x0B, CHR 0x0C, CHR 0x0D,
                           CHR 0x1C, CHR 0x1D, CHR 0x1E, CHR 0x1F, CHR 0x20,
                           CHR 0x85, CHR 0xA0])"

definition py_strip :: "string \<Rightarrow> string" where
  "py_strip s = rev (dropWhile isspace (rev (dropWhile isspace s)))"

text \<open>
  Iterating over an open text file yields its lines, each with its terminating line
  feed; a last line without one is yielded as it is, and an empty file has no line.
\<close>

fun py_lines :: "string \<Rightarrow> string list" where
  "py_lines [] = []"
| "py_lines (x # xs) =
     (if x = CHR 0x0A then [x] # py_lines xs
      else (case py_lines xs of
              [] \<Rightarrow> [[x]]
            | l # ls \<Rightarrow> (x # l) # ls))"

subsection \<open>Module constants\<close>

definition CONNECTOR_PATH_PREFIX :: string where
  "CONNECTOR_PATH_PREFIX = ''airbyte-integrations/connectors''"

definition SOURCE_CONNECTOR_PATH_PREFIX :: string where
  "SOURCE_CONNECTOR_PATH_PREFIX = CONNECTOR_PATH_PREFIX @ ''/source-''"

definition ACCEPTANCE_TEST_CONFIG_FILE_NAME :: string where
  "ACCEPTANCE_TEST_CONFIG_FILE_NAME = ''acceptance-test-config.yml''"

definition METADATA_FILE_NAME :: string where
  "METADATA_FILE_NAME = ''metadata.yaml''"

subsection \<open>The \<open>Connector\<close> dataclass: identity\<close>

text \<open>
  A frozen dataclass with the single field \<open>technical_name\<close>: two connectors are equal
  exactly when their technical names are.
\<close>

datatype Connector = Connector (technical_name: string)

text \<open>
  \<open>_get_type_and_name_from_technical_name\<close>: the type is the first field of the split
  at hyphens, the name is the slice that starts one character after the type.
\<close>

definition get_type_and_name_from_technical_name :: "Connector \<Rightarrow> py_error + string \<times> string" where
  "get_type_and_name_from_technical_name c =
     (if \<not> py_in ''-'' (technical_name c) then Inl ConnectorInvalidNameError
      else (case py_index (py_split CHR ''-'' (technical_name c)) 0 of
              Inl e \<Rightarrow> Inl e
            | Inr type \<Rightarrow> Inr (type, drop (length type + 1) (technical_name c))))"

definition name :: "Connector \<Rightarrow> py_error + string" where
  "name c = map_sum id snd (get_type_and_name_from_technical_name c)"

definition connector_type :: "Connector \<Rightarrow> py_error + string" where
  "connector_type c = map_sum id fst (get_type_and_name_from_technical_name c)"

subsection \<open>Values of a YAML document\<close>

text \<open>
  What \<open>yaml.safe_load\<close> builds: \<open>None\<close>, booleans, integers, strings, lists, and
  dictionaries (kept as association lists; the first entry of a key is its value).
  Every key the module looks up is a string, so the dictionaries are keyed by strings.
  Floats, dates and binary values are left out: under every operation the module
  applies (truth, subscript, \<open>.get\<close>, formatting) they behave as an integer does.
\<close>

datatype pyval =
    PNone
  | PBool bool
  | PInt int
  | PStr string
  | PList "pyval list"
  | PDict "(string \<times> pyval) list"

text \<open>The truth value Python gives a value in \<open>if v\<close> and \<open>v and w\<close>.\<close>

fun truthy :: "pyval \<Rightarrow> bool" where
  "truthy PNone = False"
| "truthy (PBool b) = b"
| "truthy (PInt i) = (i \<noteq> 0)"
| "truthy (PStr s) = (s \<noteq> [])"
| "truthy (PList xs) = (xs \<noteq> [])"
| "truthy (PDict m) = (m \<noteq> [])"

text \<open>
  \<open>v[k]\<close> for a string key: a dictionary without the key raises \<open>KeyError\<close>; a string
  or a list refuses a string index and the other values are not subscriptable, all
  with \<open>TypeError\<close>.
\<close>

fun py_getitem :: "pyval \<Rightarrow> string \<Rightarrow> py_error + pyval" where
  "py_getitem (PDict m) k = (case map_of m k of None \<Rightarrow> Inl KeyError | Some v \<Rightarrow> Inr v)"
| "py_getitem v k = Inl TypeError"

text \<open>\<open>v.get(k)\<close>: only a dictionary has the method, and it answers \<open>None\<close> for a missing key.\<close>

fun py_get :: "pyval \<Rightarrow> string \<Rightarrow> py_error + pyval" where
  "py_get (PDict m) k = (case map_of m k of None \<Rightarrow> Inr PNone | Some v \<Rightarrow> Inr v)"
| "py_get v k = Inl AttributeError"

text \<open>
  \<open>f"{v}"\<close>: a string formats as itself; the text of any other value is Python's own
  \<open>str\<close>, taken as the parameter \<open>fmt\<close>.
\<close>

definition py_format :: "(pyval \<Rightarrow> string) \<Rightarrow> pyval \<Rightarrow> string" where
  "py_format fmt v = (case v of PStr s \<Rightarrow> s | _ \<Rightarrow> fmt v)"

subsection \<open>The file system\<close>

text \<open>
  The file system maps a path to a regular file with its text, to a directory, or to
  nothing. The ancestors of a path are its proper prefixes that end before a \<open>/\<close>.
  Resolving a path fails with \<open>ENOTDIR\<close> when one of its ancestors is a regular file;
  otherwise the entry of the path itself decides, and an entry that is missing is
  \<open>ENOENT\<close>.
\<close>

datatype fs_node = File string | Directory

type_synonym filesystem = "string \<Rightarrow> fs_node option"

fun ancestors :: "string \<Rightarrow> string list" where
  "ancestors [] = []"
| "ancestors (x # xs) =
     (if x = CHR ''/'' then [[]] else []) @ map ((#) x) (ancestors xs)"

datatype path_lookup = Found fs_node | Missing | NotADirectory

definition is_regular :: "filesystem \<Rightarrow> string \<Rightarrow> bool" where
  "is_regular fs p = (case fs p of Some (File t) \<Rightarrow> True | _ \<Rightarrow> False)"

definition lookup_path :: "filesystem \<Rightarrow> string \<Rightarrow> path_lookup" where
  "lookup_path fs p =
     (if list_ex (is_regular fs) (ancestors p) then NotADirectory
      else (case fs p of None \<Rightarrow> Missing | Some n \<Rightarrow> Found n))"

text \<open>
  \<open>Path.is_file\<close> holds for regular files only, and answers \<open>False\<close> for a path that
  does not resolve. \<open>open\<close> raises \<open>FileNotFoundError\<close> for a missing path,
  \<open>NotADirectoryError\<close> for a path below a regular file, and \<open>IsADirectoryError\<close> for a
  directory.
\<close>

definition is_file :: "filesystem \<Rightarrow> string \<Rightarrow> bool" where
  "is_file fs p = (case lookup_path fs p of Found (File t) \<Rightarrow> True | _ \<Rightarrow> False)"

definition open_read :: "filesystem \<Rightarrow> string \<Rightarrow> py_error + string" where
  "open_read fs p =
     (case lookup_path fs p of
        Missing \<Rightarrow> Inl FileNotFoundError
      | NotADirectory \<Rightarrow> Inl NotADirectoryError
      | Found Directory \<Rightarrow> Inl IsADirectoryError
      | Found (File t) \<Rightarrow> Inr t)"

text \<open>\<open>p / q\<close> on paths: an absolute \<open>q\<close> replaces \<open>p\<close>, a relative one is appended.\<close>

definition path_join :: "string \<Rightarrow> string \<Rightarrow> string" where
  "path_join p q = (if startswith q ''/'' then q else p @ ''/'' @ q)"

text \<open>
  The parser \<open>yaml.safe_load\<close> is a parameter: a text gives a value, or \<^const>\<open>None\<close>
  when the parser raises \<open>YAMLError\<close>.
\<close>

type_synonym yaml_loader = "string \<Rightarrow> pyval option"

subsection \<open>The \<open>Connector\<close> dataclass: resolved properties\<close>

definition code_directory :: "Connector \<Rightarrow> string" where
  "code_directory c = ''./airbyte-integrations/connectors/'' @ technical_name c"

text \<open>
  \<open>metadata\<close>: \<open>None\<close> when the metadata file is not a regular file, else the \<open>data\<close>
  entry of the loaded document.
\<close>

definition metadata :: "filesystem \<Rightarrow> yaml_loader \<Rightarrow> Connector \<Rightarrow> py_error + pyval" where
  "metadata fs safe_load c =
     (let file_path = path_join (code_directory c) METADATA_FILE_NAME in
      if \<not> is_file fs file_path then Inr PNone
      else (case open_read fs (path_join (code_directory c) METADATA_FILE_NAME) of
              Inl e \<Rightarrow> Inl e
            | Inr text \<Rightarrow>
                (case safe_load text of
                   None \<Rightarrow> Inl YAMLError
                 | Some doc \<Rightarrow> py_getitem doc ''data'')))"

text \<open>
  The enumeration \<open>ConnectorLanguage\<close> has three members. \<open>language\<close> returns one of
  them or Python's \<open>None\<close>, the latter modelled by \<^const>\<open>None\<close>.
\<close>

datatype ConnectorLanguage = PYTHON | JAVA | LOW_CODE

definition language :: "filesystem \<Rightarrow> Connector \<Rightarrow> py_error + ConnectorLanguage option" where
  "language fs c =
     (if is_file fs (path_join (path_join (code_directory c)
                       (py_replace CHR ''-'' CHR ''_'' (technical_name c))) ''manifest.yaml'')
      then Inr (Some LOW_CODE)
      else if is_file fs (path_join (code_directory c) ''setup.py'')
      then Inr (Some PYTHON)
      else (case open_read fs (path_join (code_directory c) ''Dockerfile'') of
              Inl FileNotFoundError \<Rightarrow> Inr None
            | Inl e \<Rightarrow> Inl e
            | Inr dockerfile \<Rightarrow>
                if py_in ''FROM airbyte/integration-base-java'' dockerfile
                then Inr (Some JAVA) else Inr None))"

text \<open>
  The loop of \<open>version_in_dockerfile_label\<close> over the lines of the Dockerfile: the
  first line that contains the marker decides, by its second field at \<open>=\<close>.
\<close>

fun scan_version_label :: "string list \<Rightarrow> py_error + string" where
  "scan_version_label [] = Inl ConnectorVersionNotFound"
| "scan_version_label (line # rest) =
     (if py_in ''io.airbyte.version'' line
      then (case py_index (py_split CHR ''='' line) 1 of
              Inl e \<Rightarrow> Inl e
            | Inr v \<Rightarrow> Inr (py_strip v))
      else scan_version_label rest)"

definition version_in_dockerfile_label :: "filesystem \<Rightarrow> Connector \<Rightarrow> py_error + string" where
  "version_in_dockerfile_label fs c =
     (case open_read fs (path_join (code_directory c) ''Dockerfile'') of
        Inl e \<Rightarrow> Inl e
      | Inr f \<Rightarrow> scan_version_label (py_lines f))"

definition version :: "filesystem \<Rightarrow> yaml_loader \<Rightarrow> Connector \<Rightarrow> py_error + pyval" where
  "version fs safe_load c =
     (case metadata fs safe_load c of
        Inl e \<Rightarrow> Inl e
      | Inr PNone \<Rightarrow> map_sum id PStr (version_in_dockerfile_label fs c)
      | Inr m \<Rightarrow> py_getitem m ''dockerImageTag'')"

text \<open>\<open>self.metadata.get(key) if self.metadata else None\<close>, shared by three properties.\<close>

definition metadata_get :: "filesystem \<Rightarrow> yaml_loader \<Rightarrow> Connector \<Rightarrow> string \<Rightarrow> py_error + pyval" where
  "metadata_get fs safe_load c key =
     (case metadata fs safe_load c of
        Inl e \<Rightarrow> Inl e
      | Inr m \<Rightarrow> if truthy m then py_get m key else Inr PNone)"

definition release_stage :: "filesystem \<Rightarrow> yaml_loader \<Rightarrow> Connector \<Rightarrow> py_error + pyval" where
  "release_stage fs safe_load c = metadata_get fs safe_load c ''releaseStage''"

definition allowed_hosts :: "filesystem \<Rightarrow> yaml_loader \<Rightarrow> Connector \<Rightarrow> py_error + pyval" where
  "allowed_hosts fs safe_load c = metadata_get fs safe_load c ''allowedHosts''"

definition suggested_streams :: "filesystem \<Rightarrow> yaml_loader \<Rightarrow> Connector \<Rightarrow> py_error + pyval" where
  "suggested_streams fs safe_load c = metadata_get fs safe_load c ''suggestedStreams''"

text \<open>
  \<open>self.metadata and self.metadata.get("normalizationConfig") is not None\<close>: the
  metadata itself when it is falsy, else the boolean.
\<close>

definition supports_normalization :: "filesystem \<Rightarrow> yaml_loader \<Rightarrow> Connector \<Rightarrow> py_error + pyval" where
  "supports_normalization fs safe_load c =
     (case metadata fs safe_load c of
        Inl e \<Rightarrow> Inl e
      | Inr m \<Rightarrow>
          if \<not> truthy m then Inr m
          else (case py_get m ''normalizationConfig'' of
                  Inl e \<Rightarrow> Inl e
                | Inr v \<Rightarrow> Inr (PBool (v \<noteq> PNone))))"

text \<open>
  \<open>normalization_repository\<close> and \<open>normalization_tag\<close> differ in the inner key only:
  when normalization is supported, the formatted entry of \<open>normalizationConfig\<close>, else
  the implicit \<open>None\<close> of a function that falls off its end.
\<close>

definition normalization_field ::
  "(pyval \<Rightarrow> string) \<Rightarrow> filesystem \<Rightarrow> yaml_loader \<Rightarrow> Connector \<Rightarrow> string \<Rightarrow> py_error + pyval" where
  "normalization_field fmt fs safe_load c key =
     (case supports_normalization fs safe_load c of
        Inl e \<Rightarrow> Inl e
      | Inr s \<Rightarrow>
          if \<not> truthy s then Inr PNone
          else (case metadata fs safe_load c of
                  Inl e \<Rightarrow> Inl e
                | Inr m \<Rightarrow>
                    (case py_getitem m ''normalizationConfig'' of
                       Inl e \<Rightarrow> Inl e
                     | Inr cfg \<Rightarrow>
                         (case py_getitem cfg key of
                            Inl e \<Rightarrow> Inl e
                          | Inr v \<Rightarrow> Inr (PStr (py_format fmt v))))))"

definition normalization_repository ::
  "(pyval \<Rightarrow> string) \<Rightarrow> filesystem \<Rightarrow> yaml_loader \<Rightarrow> Connector \<Rightarrow> py_error + pyval" where
  "normalization_repository fmt fs safe_load c =
     normalization_field fmt fs safe_load c ''normalizationRepository''"

definition normalization_tag ::
  "(pyval \<Rightarrow> string) \<Rightarrow> filesystem \<Rightarrow> yaml_loader \<Rightarrow> Connector \<Rightarrow> py_error + pyval" where
  "normalization_tag fmt fs safe_load c =
     normalization_field fmt fs safe_load c ''normalizationTag''"

subsection \<open>Change detection\<close>

definition get_connector_name_from_path :: "string \<Rightarrow> py_error + string" where
  "get_connector_name_from_path path = py_index (py_split CHR ''/'' path) 2"

text \<open>
  The set comprehension \<open>{Connector(get_connector_name_from_path(p)) for p in paths}\<close>:
  an exception of one element is the exception of the whole.
\<close>

fun connectors_of_paths :: "string list \<Rightarrow> py_error + Connector set" where
  "connectors_of_paths [] = Inr {}"
| "connectors_of_paths (p # ps) =
     (case get_connector_name_from_path p of
        Inl e \<Rightarrow> Inl e
      | Inr n \<Rightarrow>
          (case connectors_of_paths ps of
             Inl e \<Rightarrow> Inl e
           | Inr S \<Rightarrow> Inr (insert (Connector n) S)))"

text \<open>
  \<open>airbyte_repo.git.diff\<close> is a parameter: from the arguments of the command to its
  output; a failure of \<open>git\<close> itself is not modelled. \<open>DIFFED_BRANCH\<close> is read from
  the environment when the module is loaded, so it is a parameter as well. The
  intermediate set of paths is kept as a list without duplicates.
\<close>

definition get_changed_acceptance_test_config ::
  "(string list \<Rightarrow> string) \<Rightarrow> string \<Rightarrow> string option \<Rightarrow> py_error + Connector set" where
  "get_changed_acceptance_test_config git_diff DIFFED_BRANCH diff_regex =
     (let diff_command_args =
            (case diff_regex of
               None \<Rightarrow> [''--name-only'', DIFFED_BRANCH]
             | Some r \<Rightarrow> [''--name-only'', ''-G'' @ r, DIFFED_BRANCH]);
          changed_acceptance_test_config_paths =
            remdups (filter
              (\<lambda>file_path. startswith file_path SOURCE_CONNECTOR_PATH_PREFIX
                           \<and> endswith file_path ACCEPTANCE_TEST_CONFIG_FILE_NAME)
              (py_split CHR 0x0A (git_diff diff_command_args)))
      in connectors_of_paths changed_acceptance_test_config_paths)"

definition get_changed_connectors ::
  "(string list \<Rightarrow> string) \<Rightarrow> string \<Rightarrow> py_error + Connector set" where
  "get_changed_connectors git_diff DIFFED_BRANCH =
     (let changed_source_connector_files =
            remdups (filter
              (\<lambda>file_path. startswith file_path SOURCE_CONNECTOR_PATH_PREFIX)
              (py_split CHR 0x0A (git_diff [''--name-only'', DIFFED_BRANCH])))
      in connectors_of_paths changed_source_connector_files)"

text \<open>
  \<open>Path(p).parent.name\<close>: a path is parsed into its components, empty ones and \<open>.\<close>
  dropped; the parent loses the last component, and the name of a path is its last
  component, the empty string when there is none.
\<close>

definition path_parts :: "string \<Rightarrow> string list" where
  "path_parts p = filter (\<lambda>s. s \<noteq> [] \<and> s \<noteq> ''.'') (py_split CHR ''/'' p)"

definition parent_name :: "string \<Rightarrow> string" where
  "parent_name p =
     (let parent = butlast (path_parts p) in if parent = [] then [] else last parent)"

text \<open>
  \<open>get_all_released_connectors\<close>, with the list that
  \<open>glob("airbyte-integrations/connectors/**/metadata.yaml", recursive=True)\<close> returns
  as its parameter.
\<close>

definition get_all_released_connectors :: "string list \<Rightarrow> Connector set" where
  "get_all_released_connectors glob_result =
     set (map (\<lambda>metadata_file. Connector (parent_name metadata_file))
            (filter (\<lambda>metadata_file. \<not> py_in ''-scaffold-'' metadata_file) glob_result))"

section \<open>Properties of the string operations\<close>

lemma startswith_prefix: "startswith s p = prefix p s"
  by (induction s p rule: startswith.induct) auto

lemma endswith_suffix: "endswith s p = suffix p s"
  by (simp add: endswith_def startswith_prefix suffix_to_prefix)

lemma py_in_sublist: "py_in p s = sublist p s"
  by (induction s) (auto simp: startswith_prefix sublist_Cons_right)

lemma py_split_not_Nil: "py_split sep s \<noteq> []"
  by (induction s) (auto split: list.splits)

lemma hd_py_split: "hd (py_split sep s) = takeWhile (\<lambda>c. c \<noteq> sep) s"
  by (induction s) (auto split: list.splits simp: py_split_not_Nil)

lemma py_in_char: "py_in [a] s = (a \<in> set s)"
  by (induction s) (auto simp: startswith_prefix)

lemma py_split_first:
  "sep \<notin> set t \<Longrightarrow> py_split sep (t @ sep # n) = t # py_split sep n"
  by (induction t) (auto split: list.splits)

lemma py_split_no_sep: "sep \<notin> set s \<Longrightarrow> py_split sep s = [s]"
  by (induction s) auto

lemma py_index_0: "py_index (py_split sep s) 0 = Inr (takeWhile (\<lambda>c. c \<noteq> sep) s)"
  using py_split_not_Nil [of sep s] hd_py_split [of sep s]
  by (cases "py_split sep s") (auto simp: py_index_def)

lemma py_index_Suc: "py_index (x # xs) (Suc i) = py_index xs i"
  by (simp add: py_index_def)

lemma py_split_second:
  assumes "sep \<notin> set a" "sep \<notin> set v" "r = [] \<or> hd r = sep"
  shows "py_index (py_split sep (a @ sep # v @ r)) (Suc 0) = Inr v"
proof -
  have "takeWhile (\<lambda>c. c \<noteq> sep) (v @ r) = v"
    using assms(2,3) by (cases r) (auto simp: takeWhile_tail)
  then show ?thesis
    using assms(1) py_index_0 [of sep "v @ r"]
    by (simp add: py_split_first py_index_Suc)
qed

text \<open>The equations that evaluate \<open>metadata\<close> on a given file system.\<close>

lemmas metadata_eval =
  metadata_def is_file_def open_read_def lookup_path_def is_regular_def path_join_def
  code_directory_def METADATA_FILE_NAME_def

section \<open>Identity: type and name of a connector\<close>

text \<open>
  Claim C4. When the technical name is \<open>t-n\<close> with no hyphen in \<open>t\<close>, the connector
  type is \<open>t\<close> and the name is all of \<open>n\<close>, whatever hyphens \<open>n\<close> has; every technical
  name with a hyphen is of this form. A technical name without a hyphen makes
  \<open>_get_type_and_name_from_technical_name\<close>, and with it \<open>name\<close> and \<open>connector_type\<close>,
  raise \<open>ConnectorInvalidNameError\<close>.
\<close>

theorem C4_identity_split:
  "(technical_name c = t @ ''-'' @ n \<and> CHR ''-'' \<notin> set t \<longrightarrow>
      connector_type c = Inr t \<and> name c = Inr n)
   \<and> (CHR ''-'' \<in> set (technical_name c) \<longrightarrow>
      (\<exists>t n. technical_name c = t @ ''-'' @ n \<and> CHR ''-'' \<notin> set t
             \<and> connector_type c = Inr t \<and> name c = Inr n))
   \<and> (CHR ''-'' \<notin> set (technical_name c) \<longrightarrow>
      get_type_and_name_from_technical_name c = Inl ConnectorInvalidNameError
      \<and> connector_type c = Inl ConnectorInvalidNameError
      \<and> name c = Inl ConnectorInvalidNameError)"
proof -
  have split: "connector_type c = Inr t' \<and> name c = Inr n'"
    if h: "technical_name c = t' @ ''-'' @ n'" "CHR ''-'' \<notin> set t'" for t' n'
  proof -
    from h have tw: "takeWhile (\<lambda>x. x \<noteq> CHR ''-'') (technical_name c) = t'"
      by (auto simp: takeWhile_tail)
    from h have "get_type_and_name_from_technical_name c = Inr (t', n')"
      unfolding get_type_and_name_from_technical_name_def py_index_0 tw
      by (simp add: py_in_char)
    then show ?thesis
      by (simp add: connector_type_def name_def)
  qed
  have hyphen: "\<exists>t n. technical_name c = t @ ''-'' @ n \<and> CHR ''-'' \<notin> set t
             \<and> connector_type c = Inr t \<and> name c = Inr n"
    if "CHR ''-'' \<in> set (technical_name c)"
  proof -
    from that obtain t n where d: "technical_name c = t @ CHR ''-'' # n" "CHR ''-'' \<notin> set t"
      by (auto dest: split_list_first)
    with split [of t n] show ?thesis by auto
  qed
  have none: "get_type_and_name_from_technical_name c = Inl ConnectorInvalidNameError
      \<and> connector_type c = Inl ConnectorInvalidNameError
      \<and> name c = Inl ConnectorInvalidNameError"
    if "CHR ''-'' \<notin> set (technical_name c)"
    using that
    by (simp add: get_type_and_name_from_technical_name_def py_in_char
        connector_type_def name_def)
  from split hyphen none show ?thesis by blast
qed

theorem C4_identity_split_witness:
  "connector_type (Connector ''destination-bigquery-denormalized'') = Inr ''destination''
   \<and> name (Connector ''destination-bigquery-denormalized'') = Inr ''bigquery-denormalized''
   \<and> CHR ''-'' \<in> set (technical_name (Connector ''source-s3''))
   \<and> connector_type (Connector ''source-s3'') = Inr ''source''
   \<and> name (Connector ''source-s3'') = Inr ''s3''
   \<and> name (Connector ''sourcefoo'') = Inl ConnectorInvalidNameError
   \<and> connector_type (Connector ''sourcefoo'') = Inl ConnectorInvalidNameError"
  using C4_identity_split [of "Connector ''destination-bigquery-denormalized''"
          "''destination''" "''bigquery-denormalized''"]
        C4_identity_split [of "Connector ''source-s3''" "''source''" "''s3''"]
        C4_identity_split [of "Connector ''sourcefoo''"]
  by simp

section \<open>File system lookups\<close>

lemma set_ancestors: "set (ancestors p) = {q. \<exists>r. p = q @ CHR ''/'' # r}"
  by (induction p) (auto simp: Cons_eq_append_conv)

lemma lookup_path_other:
  assumes "p \<noteq> q" "p \<notin> set (ancestors q)"
  shows "lookup_path (fs(p := x)) q = lookup_path fs q"
proof -
  have "is_regular (fs(p := x)) a = is_regular fs a" if "a \<in> set (ancestors q)" for a
    using that assms(2) by (auto simp: is_regular_def)
  then have "list_ex (is_regular (fs(p := x))) (ancestors q)
           = list_ex (is_regular fs) (ancestors q)"
    by (simp add: list_ex_iff)
  with assms(1) show ?thesis
    by (simp add: lookup_path_def)
qed

lemma dockerfile_not_metadata:
  "path_join d ''Dockerfile'' \<noteq> path_join d METADATA_FILE_NAME"
  by (simp add: path_join_def METADATA_FILE_NAME_def)

lemma dockerfile_not_ancestor:
  "path_join d ''Dockerfile'' \<notin> set (ancestors (path_join d METADATA_FILE_NAME))"
  by (simp add: set_ancestors path_join_def METADATA_FILE_NAME_def)

lemma metadata_dockerfile_update:
  "metadata (fs(path_join (code_directory c) ''Dockerfile'' := x)) safe_load c
   = metadata fs safe_load c"
  by (simp add: metadata_def is_file_def open_read_def
      lookup_path_other [OF dockerfile_not_metadata dockerfile_not_ancestor])

lemma py_getitem_error: "py_getitem v k = Inl e \<Longrightarrow> e = KeyError \<or> e = TypeError"
  by (cases v) (auto split: option.splits)

lemma metadata_file:
  "lookup_path fs (path_join (code_directory c) METADATA_FILE_NAME) = Found (File t) \<Longrightarrow>
   metadata fs safe_load c
   = (case safe_load t of None \<Rightarrow> Inl YAMLError | Some doc \<Rightarrow> py_getitem doc ''data'')"
  by (simp add: metadata_def is_file_def open_read_def)

lemma metadata_no_file:
  "\<not> is_file fs (path_join (code_directory c) METADATA_FILE_NAME) \<Longrightarrow>
   metadata fs safe_load c = Inr PNone"
  by (simp add: metadata_def)

lemma metadata_error:
  "metadata fs safe_load c = Inl e \<Longrightarrow> e = YAMLError \<or> e = KeyError \<or> e = TypeError"
proof (cases "is_file fs (path_join (code_directory c) METADATA_FILE_NAME)")
  case False
  assume "metadata fs safe_load c = Inl e"
  with False show ?thesis by (simp add: metadata_no_file)
next
  case True
  assume e: "metadata fs safe_load c = Inl e"
  from True obtain t where
    "lookup_path fs (path_join (code_directory c) METADATA_FILE_NAME) = Found (File t)"
    by (auto simp: is_file_def split: path_lookup.splits fs_node.splits)
  from metadata_file [OF this, of safe_load] e show ?thesis
    by (cases "safe_load t") (auto dest: py_getitem_error [OF sym])
qed

section \<open>Version resolution\<close>

lemma version_metadata_None:
  "metadata fs safe_load c = Inr PNone \<Longrightarrow>
   version fs safe_load c = map_sum id PStr (version_in_dockerfile_label fs c)"
  by (simp add: version_def)

lemma scan_version_label_skip:
  "\<forall>l\<in>set pre. \<not> py_in ''io.airbyte.version'' l \<Longrightarrow>
   scan_version_label (pre @ rest) = scan_version_label rest"
  by (induction pre) simp_all

lemma scan_version_label_not_found:
  "scan_version_label ls = Inl ConnectorVersionNotFound
   \<longleftrightarrow> (\<forall>l\<in>set ls. \<not> py_in ''io.airbyte.version'' l)"
  by (induction ls) (auto simp: py_index_def)

lemma version_in_dockerfile_label_not_found:
  "version_in_dockerfile_label fs c = Inl ConnectorVersionNotFound
   \<longleftrightarrow> (\<exists>f. lookup_path fs (path_join (code_directory c) ''Dockerfile'') = Found (File f)
            \<and> (\<forall>l\<in>set (py_lines f). \<not> py_in ''io.airbyte.version'' l))"
  by (auto simp: version_in_dockerfile_label_def open_read_def scan_version_label_not_found
      split: path_lookup.splits fs_node.splits)

lemmas version_eval =
  version_def version_in_dockerfile_label_def py_index_def py_strip_def isspace_def

text \<open>
  Claim C1. When the metadata of a connector is a dictionary with the key
  \<open>dockerImageTag\<close>, \<open>version\<close> returns the value of that key, and it returns the same
  whatever stands at the path of the Dockerfile: a file with any text, a directory, or
  nothing.
\<close>

theorem C1_version_from_metadata:
  "metadata fs safe_load c = Inr (PDict m) \<and> map_of m ''dockerImageTag'' = Some v \<longrightarrow>
     version fs safe_load c = Inr v
     \<and> (\<forall>d. version (fs(path_join (code_directory c) ''Dockerfile'' := d)) safe_load c = Inr v)"
  by (simp add: version_def metadata_dockerfile_update)

theorem C1_version_from_metadata_witness:
  "metadata
     [''./airbyte-integrations/connectors/source-foo/metadata.yaml'' \<mapsto> File ''data: {dockerImageTag: 0.1.0}'',
      ''./airbyte-integrations/connectors/source-foo/Dockerfile'' \<mapsto> File ''LABEL io.airbyte.version=9.9.9'']
     (\<lambda>text. Some (PDict [(''data'', PDict [(''dockerImageTag'', PStr ''0.1.0'')])]))
     (Connector ''source-foo'')
   = Inr (PDict [(''dockerImageTag'', PStr ''0.1.0'')])
   \<and> version
     [''./airbyte-integrations/connectors/source-foo/metadata.yaml'' \<mapsto> File ''data: {dockerImageTag: 0.1.0}'',
      ''./airbyte-integrations/connectors/source-foo/Dockerfile'' \<mapsto> File ''LABEL io.airbyte.version=9.9.9'']
     (\<lambda>text. Some (PDict [(''data'', PDict [(''dockerImageTag'', PStr ''0.1.0'')])]))
     (Connector ''source-foo'')
   = Inr (PStr ''0.1.0'')"
proof -
  let ?fs = "[''./airbyte-integrations/connectors/source-foo/metadata.yaml'' \<mapsto> File ''data: {dockerImageTag: 0.1.0}'',
      ''./airbyte-integrations/connectors/source-foo/Dockerfile'' \<mapsto> File ''LABEL io.airbyte.version=9.9.9'']"
  let ?l = "\<lambda>text::string.
      (Some (PDict [(''data'', PDict [(''dockerImageTag'', PStr ''0.1.0'')])]) :: pyval option)"
  have m: "metadata ?fs ?l (Connector ''source-foo'')
             = Inr (PDict [(''dockerImageTag'', PStr ''0.1.0'')])"
    by (simp add: metadata_eval)
  have k: "map_of [(''dockerImageTag'', PStr ''0.1.0'')] ''dockerImageTag'' = Some (PStr ''0.1.0'')"
    by simp
  from m k C1_version_from_metadata [of ?fs ?l "Connector ''source-foo''"
      "[(''dockerImageTag'', PStr ''0.1.0'')]" "PStr ''0.1.0''"]
  show ?thesis by blast
qed

text \<open>
  Claim C2, as stated, fails. With no metadata file and no Dockerfile, \<open>open\<close> raises
  \<open>FileNotFoundError\<close>; with a metadata dictionary that has no \<open>dockerImageTag\<close>, the
  subscript raises \<open>KeyError\<close>; with a regular file where the code directory should be,
  there is no metadata and no Dockerfile, and \<open>open\<close> raises \<open>NotADirectoryError\<close>.
  None of these is \<open>ConnectorVersionNotFound\<close>.
\<close>

theorem C2_not_always_version_not_found:
  "version Map.empty (\<lambda>text. None) (Connector ''source-foo'') = Inl FileNotFoundError
   \<and> version
       [''./airbyte-integrations/connectors/source-foo/metadata.yaml'' \<mapsto> File ''data: {}'']
       (\<lambda>text. Some (PDict [(''data'', PDict [])])) (Connector ''source-foo'')
     = Inl KeyError
   \<and> version
       [''./airbyte-integrations/connectors/source-foo'' \<mapsto> File ''not a directory'']
       (\<lambda>text. None) (Connector ''source-foo'')
     = Inl NotADirectoryError"
  by (simp add: metadata_eval version_eval)

text \<open>
  Claim C2, amended. In each of the three situations \<open>version\<close> raises and returns no
  default, with an exception that depends on the situation. It raises \<open>KeyError\<close> when
  the metadata is a dictionary without \<open>dockerImageTag\<close>. When the metadata is absent
  and the Dockerfile does not exist, it raises the exception of \<open>open\<close>:
  \<open>FileNotFoundError\<close> for a missing entry, \<open>NotADirectoryError\<close> below a regular file.
  It raises \<open>ConnectorVersionNotFound\<close> when the metadata is absent, the Dockerfile is a
  file and none of its lines contains \<open>io.airbyte.version\<close>, and in no other situation.
\<close>

theorem C2_version_failures:
  "(metadata fs safe_load c = Inr (PDict m) \<and> map_of m ''dockerImageTag'' = None \<longrightarrow>
      version fs safe_load c = Inl KeyError)
   \<and> (metadata fs safe_load c = Inr PNone
        \<and> lookup_path fs (path_join (code_directory c) ''Dockerfile'') = Missing \<longrightarrow>
      version fs safe_load c = Inl FileNotFoundError)
   \<and> (metadata fs safe_load c = Inr PNone
        \<and> lookup_path fs (path_join (code_directory c) ''Dockerfile'') = NotADirectory \<longrightarrow>
      version fs safe_load c = Inl NotADirectoryError)
   \<and> (version fs safe_load c = Inl ConnectorVersionNotFound
        \<longleftrightarrow> metadata fs safe_load c = Inr PNone
            \<and> (\<exists>f. lookup_path fs (path_join (code_directory c) ''Dockerfile'') = Found (File f)
                   \<and> (\<forall>l\<in>set (py_lines f). \<not> py_in ''io.airbyte.version'' l)))"
proof (intro conjI impI)
  assume "metadata fs safe_load c = Inr (PDict m) \<and> map_of m ''dockerImageTag'' = None"
  then show "version fs safe_load c = Inl KeyError"
    by (simp add: version_def)
next
  assume "metadata fs safe_load c = Inr PNone
        \<and> lookup_path fs (path_join (code_directory c) ''Dockerfile'') = Missing"
  then show "version fs safe_load c = Inl FileNotFoundError"
    by (simp add: version_metadata_None version_in_dockerfile_label_def open_read_def)
next
  assume "metadata fs safe_load c = Inr PNone
        \<and> lookup_path fs (path_join (code_directory c) ''Dockerfile'') = NotADirectory"
  then show "version fs safe_load c = Inl NotADirectoryError"
    by (simp add: version_metadata_None version_in_dockerfile_label_def open_read_def)
next
  show "version fs safe_load c = Inl ConnectorVersionNotFound
        \<longleftrightarrow> metadata fs safe_load c = Inr PNone
            \<and> (\<exists>f. lookup_path fs (path_join (code_directory c) ''Dockerfile'') = Found (File f)
                   \<and> (\<forall>l\<in>set (py_lines f). \<not> py_in ''io.airbyte.version'' l))"
  proof (cases "metadata fs safe_load c")
    case (Inl e)
    with metadata_error [of fs safe_load c e] show ?thesis
      by (auto simp: version_def)
  next
    case (Inr md)
    show ?thesis
    proof (cases "md = PNone")
      case True
      with Inr have "version fs safe_load c = Inl ConnectorVersionNotFound
          \<longleftrightarrow> version_in_dockerfile_label fs c = Inl ConnectorVersionNotFound"
        by (cases "version_in_dockerfile_label fs c") (simp_all add: version_metadata_None)
      with Inr True show ?thesis
        by (simp add: version_in_dockerfile_label_not_found)
    next
      case False
      with Inr have "version fs safe_load c = py_getitem md ''dockerImageTag''"
        by (cases md) (simp_all add: version_def)
      with Inr False show ?thesis
        by (auto dest: py_getitem_error)
    qed
  qed
qed

theorem C2_version_failures_witness:
  "version
       [''./airbyte-integrations/connectors/source-foo/metadata.yaml'' \<mapsto> File ''data: {icon: foo.svg}'']
       (\<lambda>text. Some (PDict [(''data'', PDict [(''icon'', PStr ''foo.svg'')])]))
       (Connector ''source-foo'')
     = Inl KeyError
   \<and> version
       [''./airbyte-integrations/connectors/source-foo/setup.py'' \<mapsto> File ''import setuptools'']
       (\<lambda>text. None) (Connector ''source-foo'')
     = Inl FileNotFoundError
   \<and> version
       [''./airbyte-integrations/connectors/source-foo'' \<mapsto> File ''not a directory'']
       (\<lambda>text. None) (Connector ''source-foo'')
     = Inl NotADirectoryError
   \<and> version
       [''./airbyte-integrations/connectors/source-foo/Dockerfile'' \<mapsto>
          File ''FROM python:3.9\<newline>LABEL io.airbyte.name=airbyte/source-foo\<newline>'']
       (\<lambda>text. None) (Connector ''source-foo'')
     = Inl ConnectorVersionNotFound"
proof -
  let ?c = "Connector ''source-foo''"
  let ?docker = "path_join (code_directory ?c) ''Dockerfile''"
  let ?fs1 = "[''./airbyte-integrations/connectors/source-foo/metadata.yaml'' \<mapsto>
                 File ''data: {icon: foo.svg}'']"
  let ?l1 = "\<lambda>text::string.
      (Some (PDict [(''data'', PDict [(''icon'', PStr ''foo.svg'')])]) :: pyval option)"
  let ?fs2 = "[''./airbyte-integrations/connectors/source-foo/setup.py'' \<mapsto>
                 File ''import setuptools'']"
  let ?f3 = "''FROM python:3.9\<newline>LABEL io.airbyte.name=airbyte/source-foo\<newline>''"
  let ?fs3 = "[''./airbyte-integrations/connectors/source-foo/Dockerfile'' \<mapsto> File ?f3]"
  let ?fs4 = "[''./airbyte-integrations/connectors/source-foo'' \<mapsto> File ''not a directory'']"
  let ?l = "\<lambda>text::string. (None :: pyval option)"
  have a: "metadata ?fs1 ?l1 ?c = Inr (PDict [(''icon'', PStr ''foo.svg'')])
             \<and> map_of [(''icon'', PStr ''foo.svg'')] ''dockerImageTag'' = None"
    by (simp add: metadata_eval)
  have b: "metadata ?fs2 ?l ?c = Inr PNone \<and> lookup_path ?fs2 ?docker = Missing"
    by (simp add: metadata_eval)
  have d: "metadata ?fs4 ?l ?c = Inr PNone \<and> lookup_path ?fs4 ?docker = NotADirectory"
    by (simp add: metadata_eval)
  have c: "metadata ?fs3 ?l ?c = Inr PNone
             \<and> lookup_path ?fs3 ?docker = Found (File ?f3)
             \<and> (\<forall>l\<in>set (py_lines ?f3). \<not> py_in ''io.airbyte.version'' l)"
    by (simp add: metadata_eval)
  from a C2_version_failures [of ?fs1 ?l1 ?c "[(''icon'', PStr ''foo.svg'')]"]
  have 1: "version ?fs1 ?l1 ?c = Inl KeyError" by blast
  from b C2_version_failures [of ?fs2 ?l ?c]
  have 2: "version ?fs2 ?l ?c = Inl FileNotFoundError" by blast
  from d C2_version_failures [of ?fs4 ?l ?c]
  have 3: "version ?fs4 ?l ?c = Inl NotADirectoryError" by blast
  from c C2_version_failures [of ?fs3 ?l ?c]
  have 4: "version ?fs3 ?l ?c = Inl ConnectorVersionNotFound" by blast
  from 1 2 3 4 show ?thesis by blast
qed

text \<open>
  Claim C3, as stated, fails on a value that contains \<open>=\<close>: the line
  \<open>LABEL io.airbyte.version=1.2.3=beta\<close> yields \<open>1.2.3\<close>, the text between the first and
  the second \<open>=\<close>, not everything after the first.
\<close>

theorem C3_value_cut_at_second_equals:
  "version
     [''./airbyte-integrations/connectors/source-foo/Dockerfile'' \<mapsto>
        File ''FROM python:3.9\<newline>LABEL io.airbyte.version=1.2.3=beta\<newline>'']
     (\<lambda>text. None) (Connector ''source-foo'')
   = Inr (PStr ''1.2.3'')"
  by (simp add: metadata_eval version_eval)

text \<open>
  Claim C3, amended. With the metadata absent and the Dockerfile a file, the first line
  that contains \<open>io.airbyte.version\<close> decides. When that line is \<open>a=v\<close> followed by
  nothing or by a further \<open>=\<close> and more, with no \<open>=\<close> in \<open>a\<close> and in \<open>v\<close>, \<open>version\<close>
  returns \<open>v\<close> trimmed of surrounding whitespace: the text between the first and the
  second \<open>=\<close>, or after the first when it is the only one.
\<close>

theorem C3_version_from_dockerfile:
  "metadata fs safe_load c = Inr PNone
     \<and> lookup_path fs (path_join (code_directory c) ''Dockerfile'') = Found (File f)
     \<and> py_lines f = pre @ line # post
     \<and> (\<forall>l\<in>set pre. \<not> py_in ''io.airbyte.version'' l)
     \<and> py_in ''io.airbyte.version'' line
     \<and> line = a @ ''='' @ v @ r
     \<and> CHR ''='' \<notin> set a \<and> CHR ''='' \<notin> set v \<and> (r = [] \<or> hd r = CHR ''='') \<longrightarrow>
   version fs safe_load c = Inr (PStr (py_strip v))"
proof
  assume h: "metadata fs safe_load c = Inr PNone
     \<and> lookup_path fs (path_join (code_directory c) ''Dockerfile'') = Found (File f)
     \<and> py_lines f = pre @ line # post
     \<and> (\<forall>l\<in>set pre. \<not> py_in ''io.airbyte.version'' l)
     \<and> py_in ''io.airbyte.version'' line
     \<and> line = a @ ''='' @ v @ r
     \<and> CHR ''='' \<notin> set a \<and> CHR ''='' \<notin> set v \<and> (r = [] \<or> hd r = CHR ''='')"
  then have found:
    "version fs safe_load c = map_sum id PStr (scan_version_label (line # post))"
    by (simp add: version_metadata_None version_in_dockerfile_label_def open_read_def
        scan_version_label_skip)
  from h have marker: "py_in ''io.airbyte.version'' line"
    by blast
  from h have "py_index (py_split CHR ''='' line) (Suc 0) = Inr v"
    using py_split_second [of "CHR ''=''" a v r] by simp
  with marker have "scan_version_label (line # post) = Inr (py_strip v)"
    by simp
  with found show "version fs safe_load c = Inr (PStr (py_strip v))"
    by simp
qed

theorem C3_version_from_dockerfile_witness:
  "version
     [''./airbyte-integrations/connectors/source-foo/Dockerfile'' \<mapsto>
        File ''FROM python:3.9\<newline>LABEL io.airbyte.version=1.2.3\<newline>'']
     (\<lambda>text. None) (Connector ''source-foo'')
   = Inr (PStr ''1.2.3'')"
proof -
  let ?c = "Connector ''source-foo''"
  let ?l = "\<lambda>text::string. (None :: pyval option)"
  let ?pre = "[''FROM python:3.9\<newline>'']"
  let ?f1 = "''FROM python:3.9\<newline>LABEL io.airbyte.version=1.2.3\<newline>''"
  let ?fs1 = "[''./airbyte-integrations/connectors/source-foo/Dockerfile'' \<mapsto> File ?f1]"
  let ?line1 = "''LABEL io.airbyte.version=1.2.3\<newline>''"
  have a: "metadata ?fs1 ?l ?c = Inr PNone
     \<and> lookup_path ?fs1 (path_join (code_directory ?c) ''Dockerfile'') = Found (File ?f1)
     \<and> py_lines ?f1 = ?pre @ ?line1 # []
     \<and> (\<forall>l\<in>set ?pre. \<not> py_in ''io.airbyte.version'' l)
     \<and> py_in ''io.airbyte.version'' ?line1
     \<and> ?line1 = ''LABEL io.airbyte.version'' @ ''='' @ ''1.2.3\<newline>'' @ []
     \<and> CHR ''='' \<notin> set ''LABEL io.airbyte.version'' \<and> CHR ''='' \<notin> set ''1.2.3\<newline>''
     \<and> ([] = [] \<or> hd [] = CHR ''='')"
    by (simp add: metadata_eval)
  have s: "py_strip ''1.2.3\<newline>'' = ''1.2.3''"
    by (simp add: py_strip_def isspace_def)
  from a C3_version_from_dockerfile [of ?fs1 ?l ?c ?f1 ?pre ?line1 "[]"
      "''LABEL io.airbyte.version''" "''1.2.3\<newline>''" "[]"]
  have "version ?fs1 ?l ?c = Inr (PStr (py_strip ''1.2.3\<newline>''))" by blast
  with s show ?thesis by simp
qed

section \<open>Metadata and language\<close>

text \<open>
  Claim C6. \<open>metadata\<close> returns \<open>None\<close>, and raises nothing, when the metadata file is
  not a regular file of the code directory. When the file is there, the result is
  decided by its text alone: the entry \<open>data\<close> when the loaded document is a dictionary
  that has it, \<open>KeyError\<close> when it is a dictionary without it, \<open>TypeError\<close> when it is no
  dictionary (an empty document, a list, a scalar), \<open>YAMLError\<close> when the text does not
  parse. So every present file whose document has no entry \<open>data\<close> raises, and none is
  turned into \<open>None\<close>.
\<close>

theorem C6_metadata_loading:
  "(\<not> is_file fs (path_join (code_directory c) METADATA_FILE_NAME) \<longrightarrow>
      metadata fs safe_load c = Inr PNone)
   \<and> (lookup_path fs (path_join (code_directory c) METADATA_FILE_NAME) = Found (File t) \<longrightarrow>
      metadata fs safe_load c
      = (case safe_load t of
           None \<Rightarrow> Inl YAMLError
         | Some (PDict doc) \<Rightarrow>
             (case map_of doc ''data'' of None \<Rightarrow> Inl KeyError | Some d \<Rightarrow> Inr d)
         | Some other \<Rightarrow> Inl TypeError))
   \<and> (lookup_path fs (path_join (code_directory c) METADATA_FILE_NAME) = Found (File t)
      \<and> safe_load t = Some (PDict doc) \<and> map_of doc ''data'' = Some d \<longrightarrow>
      metadata fs safe_load c = Inr d)
   \<and> (lookup_path fs (path_join (code_directory c) METADATA_FILE_NAME) = Found (File t)
      \<and> safe_load t = Some (PDict doc) \<and> map_of doc ''data'' = None \<longrightarrow>
      metadata fs safe_load c = Inl KeyError)
   \<and> (lookup_path fs (path_join (code_directory c) METADATA_FILE_NAME) = Found (File t)
      \<and> \<not> (\<exists>doc d. safe_load t = Some (PDict doc) \<and> map_of doc ''data'' = Some d) \<longrightarrow>
      (\<exists>e. metadata fs safe_load c = Inl e))"
proof -
  have full: "metadata fs safe_load c
      = (case safe_load t of
           None \<Rightarrow> Inl YAMLError
         | Some (PDict doc) \<Rightarrow>
             (case map_of doc ''data'' of None \<Rightarrow> Inl KeyError | Some d \<Rightarrow> Inr d)
         | Some other \<Rightarrow> Inl TypeError)"
    if "lookup_path fs (path_join (code_directory c) METADATA_FILE_NAME) = Found (File t)"
    using metadata_file [OF that, of safe_load]
    by (simp split: option.splits pyval.splits)
  have raises: "\<exists>e. metadata fs safe_load c = Inl e"
    if "lookup_path fs (path_join (code_directory c) METADATA_FILE_NAME) = Found (File t)"
      "\<not> (\<exists>doc d. safe_load t = Some (PDict doc) \<and> map_of doc ''data'' = Some d)"
    using that(2) unfolding full [OF that(1)]
    by (auto split: option.splits pyval.splits)
  from full raises show ?thesis
    by (simp add: metadata_no_file)
qed

theorem C6_metadata_loading_witness:
  "metadata Map.empty (\<lambda>text. None) (Connector ''source-foo'') = Inr PNone
   \<and> metadata
       [''./airbyte-integrations/connectors/source-foo/metadata.yaml'' \<mapsto>
          File ''data: {releaseStage: alpha}'']
       (\<lambda>text. Some (PDict [(''data'', PDict [(''releaseStage'', PStr ''alpha'')])]))
       (Connector ''source-foo'')
     = Inr (PDict [(''releaseStage'', PStr ''alpha'')])
   \<and> metadata
       [''./airbyte-integrations/connectors/source-foo/metadata.yaml'' \<mapsto>
          File ''metadataSpecVersion: 1.0'']
       (\<lambda>text. Some (PDict [(''metadataSpecVersion'', PStr ''1.0'')]))
       (Connector ''source-foo'')
     = Inl KeyError
   \<and> metadata
       [''./airbyte-integrations/connectors/source-foo/metadata.yaml'' \<mapsto> File '''']
       (\<lambda>text. Some PNone) (Connector ''source-foo'')
     = Inl TypeError
   \<and> metadata
       [''./airbyte-integrations/connectors/source-foo/metadata.yaml'' \<mapsto> File ''data: [='']
       (\<lambda>text. None) (Connector ''source-foo'')
     = Inl YAMLError"
proof -
  let ?c = "Connector ''source-foo''"
  let ?p = "path_join (code_directory ?c) METADATA_FILE_NAME"
  let ?l1 = "\<lambda>text::string. (None :: pyval option)"
  let ?t2 = "''data: {releaseStage: alpha}''"
  let ?fs2 = "[''./airbyte-integrations/connectors/source-foo/metadata.yaml'' \<mapsto> File ?t2]"
  let ?d2 = "PDict [(''releaseStage'', PStr ''alpha'')]"
  let ?doc2 = "[(''data'', ?d2)]"
  let ?l2 = "\<lambda>text::string. (Some (PDict ?doc2) :: pyval option)"
  let ?t3 = "''metadataSpecVersion: 1.0''"
  let ?fs3 = "[''./airbyte-integrations/connectors/source-foo/metadata.yaml'' \<mapsto> File ?t3]"
  let ?doc3 = "[(''metadataSpecVersion'', PStr ''1.0'')]"
  let ?l3 = "\<lambda>text::string. (Some (PDict ?doc3) :: pyval option)"
  let ?fs4 = "[''./airbyte-integrations/connectors/source-foo/metadata.yaml'' \<mapsto> File '''']"
  let ?l4 = "\<lambda>text::string. (Some PNone :: pyval option)"
  let ?t5 = "''data: [=''"
  let ?fs5 = "[''./airbyte-integrations/connectors/source-foo/metadata.yaml'' \<mapsto> File ?t5]"
  have p: "?p = ''./airbyte-integrations/connectors/source-foo/metadata.yaml''"
    by (simp add: path_join_def code_directory_def METADATA_FILE_NAME_def)
  have 1: "\<not> is_file Map.empty ?p"
    by (simp add: is_file_def lookup_path_def is_regular_def list_ex_iff)
  have 2: "lookup_path ?fs2 ?p = Found (File ?t2) \<and> ?l2 ?t2 = Some (PDict ?doc2)
      \<and> map_of ?doc2 ''data'' = Some ?d2"
    unfolding p by (simp add: lookup_path_def is_regular_def)
  have 3: "lookup_path ?fs3 ?p = Found (File ?t3) \<and> ?l3 ?t3 = Some (PDict ?doc3)
      \<and> map_of ?doc3 ''data'' = None"
    unfolding p by (simp add: lookup_path_def is_regular_def)
  have 4: "lookup_path ?fs4 ?p = Found (File '''')"
    unfolding p by (simp add: lookup_path_def is_regular_def)
  have 5: "lookup_path ?fs5 ?p = Found (File ?t5)"
    unfolding p by (simp add: lookup_path_def is_regular_def)
  from 1 C6_metadata_loading [of Map.empty ?c ?l1]
  have a: "metadata Map.empty ?l1 ?c = Inr PNone" by blast
  from 2 C6_metadata_loading [of ?fs2 ?c ?l2 ?t2 ?doc2 ?d2]
  have b: "metadata ?fs2 ?l2 ?c = Inr ?d2" by blast
  from 3 C6_metadata_loading [of ?fs3 ?c ?l3 ?t3 ?doc3]
  have c: "metadata ?fs3 ?l3 ?c = Inl KeyError" by blast
  from 4 C6_metadata_loading [of ?fs4 ?c ?l4 "''''"]
  have "metadata ?fs4 ?l4 ?c
      = (case ?l4 '''' of
           None \<Rightarrow> Inl YAMLError
         | Some (PDict doc) \<Rightarrow>
             (case map_of doc ''data'' of None \<Rightarrow> Inl KeyError | Some d \<Rightarrow> Inr d)
         | Some other \<Rightarrow> Inl TypeError)"
    by blast
  then have d: "metadata ?fs4 ?l4 ?c = Inl TypeError"
    by simp
  from 5 C6_metadata_loading [of ?fs5 ?c ?l1 ?t5]
  have "metadata ?fs5 ?l1 ?c
      = (case ?l1 ?t5 of
           None \<Rightarrow> Inl YAMLError
         | Some (PDict doc) \<Rightarrow>
             (case map_of doc ''data'' of None \<Rightarrow> Inl KeyError | Some d \<Rightarrow> Inr d)
         | Some other \<Rightarrow> Inl TypeError)"
    by blast
  then have e: "metadata ?fs5 ?l1 ?c = Inl YAMLError"
    by simp
  from a b c d e show ?thesis by blast
qed

text \<open>
  Claim C5, as stated, fails. For a directory that matches none of the three layouts
  \<open>language\<close> returns Python's \<open>None\<close>, which is no member of \<open>ConnectorLanguage\<close>; the
  enumeration has the three members \<open>python\<close>, \<open>java\<close> and \<open>low-code\<close> and no member
  for an unknown language. And the handler around \<open>open\<close> catches \<open>FileNotFoundError\<close>
  only: a directory at the path of the Dockerfile raises \<open>IsADirectoryError\<close>, and a
  regular file where the code directory should be raises \<open>NotADirectoryError\<close>.
\<close>

theorem C5_language_not_an_unknown_member:
  "language Map.empty (Connector ''source-foo'') = Inr None
   \<and> language Map.empty (Connector ''source-foo'')
       \<notin> {Inr (Some PYTHON), Inr (Some JAVA), Inr (Some LOW_CODE)}
   \<and> language [''./airbyte-integrations/connectors/source-foo/Dockerfile'' \<mapsto> Directory]
       (Connector ''source-foo'') = Inl IsADirectoryError
   \<and> language [''./airbyte-integrations/connectors/source-foo'' \<mapsto> File ''not a directory'']
       (Connector ''source-foo'') = Inl NotADirectoryError"
  by (simp add: language_def is_file_def open_read_def lookup_path_def is_regular_def
      path_join_def code_directory_def py_replace_def)

text \<open>
  Claim C5, amended. The first match decides: a manifest file gives \<open>low-code\<close>; else
  \<open>setup.py\<close> gives \<open>python\<close>; else a Dockerfile whose text contains
  \<open>FROM airbyte/integration-base-java\<close> gives \<open>java\<close>; else, when the Dockerfile is a
  file without that text, or is missing from a code directory that is no regular file,
  the result is \<open>None\<close> and nothing is raised. The enumeration has exactly the members
  \<open>python\<close>, \<open>java\<close> and \<open>low-code\<close>.
\<close>

theorem C5_language_precedence:
  "(is_file fs (path_join (path_join (code_directory c)
       (py_replace CHR ''-'' CHR ''_'' (technical_name c))) ''manifest.yaml'') \<longrightarrow>
      language fs c = Inr (Some LOW_CODE))
   \<and> (\<not> is_file fs (path_join (path_join (code_directory c)
       (py_replace CHR ''-'' CHR ''_'' (technical_name c))) ''manifest.yaml'')
      \<and> is_file fs (path_join (code_directory c) ''setup.py'') \<longrightarrow>
      language fs c = Inr (Some PYTHON))
   \<and> (\<not> is_file fs (path_join (path_join (code_directory c)
       (py_replace CHR ''-'' CHR ''_'' (technical_name c))) ''manifest.yaml'')
      \<and> \<not> is_file fs (path_join (code_directory c) ''setup.py'')
      \<and> lookup_path fs (path_join (code_directory c) ''Dockerfile'') = Found (File t)
      \<and> py_in ''FROM airbyte/integration-base-java'' t \<longrightarrow>
      language fs c = Inr (Some JAVA))
   \<and> (\<not> is_file fs (path_join (path_join (code_directory c)
       (py_replace CHR ''-'' CHR ''_'' (technical_name c))) ''manifest.yaml'')
      \<and> \<not> is_file fs (path_join (code_directory c) ''setup.py'')
      \<and> (lookup_path fs (path_join (code_directory c) ''Dockerfile'') = Missing
          \<or> lookup_path fs (path_join (code_directory c) ''Dockerfile'') = Found (File t)
             \<and> \<not> py_in ''FROM airbyte/integration-base-java'' t) \<longrightarrow>
      language fs c = Inr None)
   \<and> (\<forall>l. l \<in> {PYTHON, JAVA, LOW_CODE})"
proof -
  have "l \<in> {PYTHON, JAVA, LOW_CODE}" for l
    by (cases l) simp_all
  moreover have "language fs c = Inr None"
    if "\<not> is_file fs (path_join (path_join (code_directory c)
       (py_replace CHR ''-'' CHR ''_'' (technical_name c))) ''manifest.yaml'')"
      "\<not> is_file fs (path_join (code_directory c) ''setup.py'')"
      "lookup_path fs (path_join (code_directory c) ''Dockerfile'') = Missing
          \<or> lookup_path fs (path_join (code_directory c) ''Dockerfile'') = Found (File t)
             \<and> \<not> py_in ''FROM airbyte/integration-base-java'' t"
    using that by (auto simp: language_def open_read_def)
  ultimately show ?thesis
    by (simp add: language_def open_read_def)
qed

theorem C5_language_precedence_witness:
  "language
     [''./airbyte-integrations/connectors/source-foo/source_foo/manifest.yaml'' \<mapsto> File ''version: 0.1.0'',
      ''./airbyte-integrations/connectors/source-foo/setup.py'' \<mapsto> File ''import setuptools'',
      ''./airbyte-integrations/connectors/source-foo/Dockerfile'' \<mapsto>
         File ''FROM airbyte/integration-base-java:dev'']
     (Connector ''source-foo'') = Inr (Some LOW_CODE)
   \<and> language
     [''./airbyte-integrations/connectors/source-foo/setup.py'' \<mapsto> File ''import setuptools'',
      ''./airbyte-integrations/connectors/source-foo/Dockerfile'' \<mapsto>
         File ''FROM airbyte/integration-base-java:dev'']
     (Connector ''source-foo'') = Inr (Some PYTHON)
   \<and> language
     [''./airbyte-integrations/connectors/source-foo/Dockerfile'' \<mapsto>
         File ''FROM airbyte/integration-base-java:dev'']
     (Connector ''source-foo'') = Inr (Some JAVA)
   \<and> language
     [''./airbyte-integrations/connectors/source-foo/Dockerfile'' \<mapsto> File ''FROM golang:1.20'']
     (Connector ''source-foo'') = Inr None
   \<and> language Map.empty (Connector ''source-foo'') = Inr None"
proof -
  let ?c = "Connector ''source-foo''"
  let ?manifest = "path_join (path_join (code_directory ?c)
       (py_replace CHR ''-'' CHR ''_'' (technical_name ?c))) ''manifest.yaml''"
  let ?setup_py = "path_join (code_directory ?c) ''setup.py''"
  let ?docker = "path_join (code_directory ?c) ''Dockerfile''"
  let ?java = "''FROM airbyte/integration-base-java:dev''"
  let ?go = "''FROM golang:1.20''"
  let ?fs1 = "[''./airbyte-integrations/connectors/source-foo/source_foo/manifest.yaml'' \<mapsto> File ''version: 0.1.0'',
      ''./airbyte-integrations/connectors/source-foo/setup.py'' \<mapsto> File ''import setuptools'',
      ''./airbyte-integrations/connectors/source-foo/Dockerfile'' \<mapsto> File ?java]"
  let ?fs2 = "[''./airbyte-integrations/connectors/source-foo/setup.py'' \<mapsto> File ''import setuptools'',
      ''./airbyte-integrations/connectors/source-foo/Dockerfile'' \<mapsto> File ?java]"
  let ?fs3 = "[''./airbyte-integrations/connectors/source-foo/Dockerfile'' \<mapsto> File ?java]"
  let ?fs4 = "[''./airbyte-integrations/connectors/source-foo/Dockerfile'' \<mapsto> File ?go]"
  let ?fs5 = "Map.empty :: filesystem"
  have p: "?manifest = ''./airbyte-integrations/connectors/source-foo/source_foo/manifest.yaml''"
    "?setup_py = ''./airbyte-integrations/connectors/source-foo/setup.py''"
    "?docker = ''./airbyte-integrations/connectors/source-foo/Dockerfile''"
    by (simp_all add: path_join_def code_directory_def py_replace_def)
  have 1: "is_file ?fs1 ?manifest"
    unfolding p by (simp add: is_file_def lookup_path_def is_regular_def)
  have 2: "\<not> is_file ?fs2 ?manifest \<and> is_file ?fs2 ?setup_py"
    unfolding p by (simp add: is_file_def lookup_path_def is_regular_def)
  have 3: "\<not> is_file ?fs3 ?manifest \<and> \<not> is_file ?fs3 ?setup_py
      \<and> lookup_path ?fs3 ?docker = Found (File ?java)
      \<and> py_in ''FROM airbyte/integration-base-java'' ?java"
    unfolding p by (simp add: is_file_def lookup_path_def is_regular_def)
  have 4: "\<not> is_file ?fs4 ?manifest \<and> \<not> is_file ?fs4 ?setup_py
      \<and> (lookup_path ?fs4 ?docker = Missing
          \<or> lookup_path ?fs4 ?docker = Found (File ?go)
             \<and> \<not> py_in ''FROM airbyte/integration-base-java'' ?go)"
    unfolding p by (simp add: is_file_def lookup_path_def is_regular_def)
  have 5: "\<not> is_file ?fs5 ?manifest \<and> \<not> is_file ?fs5 ?setup_py
      \<and> (lookup_path ?fs5 ?docker = Missing
          \<or> lookup_path ?fs5 ?docker = Found (File ?go)
             \<and> \<not> py_in ''FROM airbyte/integration-base-java'' ?go)"
    by (simp add: is_file_def lookup_path_def is_regular_def list_ex_iff)
  from 1 C5_language_precedence [of ?fs1 ?c]
  have a: "language ?fs1 ?c = Inr (Some LOW_CODE)" by blast
  from 2 C5_language_precedence [of ?fs2 ?c]
  have b: "language ?fs2 ?c = Inr (Some PYTHON)" by blast
  from 3 C5_language_precedence [of ?fs3 ?c ?java]
  have c: "language ?fs3 ?c = Inr (Some JAVA)" by blast
  from 4 C5_language_precedence [of ?fs4 ?c ?go]
  have d: "language ?fs4 ?c = Inr None" by blast
  from 5 C5_language_precedence [of ?fs5 ?c ?go]
  have e: "language ?fs5 ?c = Inr None" by blast
  from a b c d e show ?thesis by blast
qed

section \<open>Optional accessors\<close>

lemmas accessor_defs =
  release_stage_def allowed_hosts_def suggested_streams_def metadata_get_def
  supports_normalization_def normalization_repository_def normalization_tag_def
  normalization_field_def

text \<open>
  Claim C7, as stated, fails for a \<open>normalizationConfig\<close> without
  \<open>normalizationRepository\<close>: the property subscripts the inner dictionary, which raises
  \<open>KeyError\<close>.
\<close>

theorem C7_inner_key_missing_raises:
  "normalization_repository (\<lambda>v. [])
     [''./airbyte-integrations/connectors/destination-foo/metadata.yaml'' \<mapsto>
        File ''data: {normalizationConfig: {normalizationTag: 0.4.1}}'']
     (\<lambda>text. Some (PDict [(''data'',
        PDict [(''normalizationConfig'', PDict [(''normalizationTag'', PStr ''0.4.1'')])])]))
     (Connector ''destination-foo'')
   = Inl KeyError"
  by (simp add: metadata_eval accessor_defs)

text \<open>
  Claim C7, amended. With the metadata absent, all six accessors return \<open>None\<close>. With
  the metadata a dictionary, \<open>release_stage\<close>, \<open>allowed_hosts\<close> and \<open>suggested_streams\<close>
  return the value of their key, \<open>None\<close> when it is missing; \<open>supports_normalization\<close>
  returns the empty metadata itself, or whether \<open>normalizationConfig\<close> is there and not
  \<open>None\<close>; \<open>normalization_repository\<close> and \<open>normalization_tag\<close> return \<open>None\<close> when
  \<open>normalizationConfig\<close> is missing or \<open>None\<close>. None of these raises. When
  \<open>normalizationConfig\<close> is a dictionary without the inner key, \<open>normalization_repository\<close>
  and \<open>normalization_tag\<close> raise \<open>KeyError\<close>.
\<close>

theorem C7_optional_accessors:
  "(metadata fs safe_load c = Inr PNone \<longrightarrow>
      release_stage fs safe_load c = Inr PNone
      \<and> allowed_hosts fs safe_load c = Inr PNone
      \<and> suggested_streams fs safe_load c = Inr PNone
      \<and> supports_normalization fs safe_load c = Inr PNone
      \<and> normalization_repository fmt fs safe_load c = Inr PNone
      \<and> normalization_tag fmt fs safe_load c = Inr PNone)
   \<and> (metadata fs safe_load c = Inr (PDict m) \<longrightarrow>
      release_stage fs safe_load c
        = Inr (case map_of m ''releaseStage'' of None \<Rightarrow> PNone | Some v \<Rightarrow> v)
      \<and> allowed_hosts fs safe_load c
        = Inr (case map_of m ''allowedHosts'' of None \<Rightarrow> PNone | Some v \<Rightarrow> v)
      \<and> suggested_streams fs safe_load c
        = Inr (case map_of m ''suggestedStreams'' of None \<Rightarrow> PNone | Some v \<Rightarrow> v)
      \<and> supports_normalization fs safe_load c
        = Inr (if m = [] then PDict []
               else PBool (map_of m ''normalizationConfig'' \<notin> {None, Some PNone}))
      \<and> (map_of m ''normalizationConfig'' \<in> {None, Some PNone} \<longrightarrow>
           normalization_repository fmt fs safe_load c = Inr PNone
           \<and> normalization_tag fmt fs safe_load c = Inr PNone)
      \<and> (map_of m ''normalizationConfig'' = Some (PDict cfg)
           \<and> map_of cfg ''normalizationRepository'' = None \<longrightarrow>
           normalization_repository fmt fs safe_load c = Inl KeyError)
      \<and> (map_of m ''normalizationConfig'' = Some (PDict cfg)
           \<and> map_of cfg ''normalizationTag'' = None \<longrightarrow>
           normalization_tag fmt fs safe_load c = Inl KeyError))"
proof (intro conjI impI)
  assume "metadata fs safe_load c = Inr PNone"
  then show "release_stage fs safe_load c = Inr PNone"
    "allowed_hosts fs safe_load c = Inr PNone"
    "suggested_streams fs safe_load c = Inr PNone"
    "supports_normalization fs safe_load c = Inr PNone"
    "normalization_repository fmt fs safe_load c = Inr PNone"
    "normalization_tag fmt fs safe_load c = Inr PNone"
    by (simp_all add: accessor_defs)
next
  assume md: "metadata fs safe_load c = Inr (PDict m)"
  have get: "metadata_get fs safe_load c key
         = Inr (case map_of m key of None \<Rightarrow> PNone | Some v \<Rightarrow> v)" for key
    using md by (cases m) (auto simp: metadata_get_def split: option.splits)
  show "release_stage fs safe_load c
        = Inr (case map_of m ''releaseStage'' of None \<Rightarrow> PNone | Some v \<Rightarrow> v)"
    "allowed_hosts fs safe_load c
        = Inr (case map_of m ''allowedHosts'' of None \<Rightarrow> PNone | Some v \<Rightarrow> v)"
    "suggested_streams fs safe_load c
        = Inr (case map_of m ''suggestedStreams'' of None \<Rightarrow> PNone | Some v \<Rightarrow> v)"
    by (simp_all add: release_stage_def allowed_hosts_def suggested_streams_def get)
  show sn: "supports_normalization fs safe_load c
        = Inr (if m = [] then PDict []
               else PBool (map_of m ''normalizationConfig'' \<notin> {None, Some PNone}))"
    using md by (auto simp: supports_normalization_def split: option.splits)
  {
    assume "map_of m ''normalizationConfig'' \<in> {None, Some PNone}"
    then show "normalization_repository fmt fs safe_load c = Inr PNone"
      "normalization_tag fmt fs safe_load c = Inr PNone"
      by (simp_all add: normalization_repository_def normalization_tag_def
          normalization_field_def sn)
  }
  {
    assume "map_of m ''normalizationConfig'' = Some (PDict cfg)
           \<and> map_of cfg ''normalizationRepository'' = None"
    then show "normalization_repository fmt fs safe_load c = Inl KeyError"
      using md
      by (auto simp: normalization_repository_def normalization_field_def sn)
  }
  {
    assume "map_of m ''normalizationConfig'' = Some (PDict cfg)
           \<and> map_of cfg ''normalizationTag'' = None"
    then show "normalization_tag fmt fs safe_load c = Inl KeyError"
      using md
      by (auto simp: normalization_tag_def normalization_field_def sn)
  }
qed

theorem C7_optional_accessors_witness:
  "release_stage Map.empty (\<lambda>text. None) (Connector ''destination-foo'') = Inr PNone
   \<and> supports_normalization Map.empty (\<lambda>text. None) (Connector ''destination-foo'')
       = Inr PNone
   \<and> normalization_tag (\<lambda>v. []) Map.empty (\<lambda>text. None) (Connector ''destination-foo'')
       = Inr PNone
   \<and> allowed_hosts
       [''./airbyte-integrations/connectors/destination-foo/metadata.yaml'' \<mapsto>
          File ''data: {releaseStage: alpha}'']
       (\<lambda>text. Some (PDict [(''data'', PDict [(''releaseStage'', PStr ''alpha'')])]))
       (Connector ''destination-foo'') = Inr PNone
   \<and> release_stage
       [''./airbyte-integrations/connectors/destination-foo/metadata.yaml'' \<mapsto>
          File ''data: {releaseStage: alpha}'']
       (\<lambda>text. Some (PDict [(''data'', PDict [(''releaseStage'', PStr ''alpha'')])]))
       (Connector ''destination-foo'') = Inr (PStr ''alpha'')
   \<and> supports_normalization
       [''./airbyte-integrations/connectors/destination-foo/metadata.yaml'' \<mapsto>
          File ''data: {releaseStage: alpha}'']
       (\<lambda>text. Some (PDict [(''data'', PDict [(''releaseStage'', PStr ''alpha'')])]))
       (Connector ''destination-foo'') = Inr (PBool False)
   \<and> normalization_repository (\<lambda>v. [])
       [''./airbyte-integrations/connectors/destination-foo/metadata.yaml'' \<mapsto>
          File ''data: {releaseStage: alpha}'']
       (\<lambda>text. Some (PDict [(''data'', PDict [(''releaseStage'', PStr ''alpha'')])]))
       (Connector ''destination-foo'') = Inr PNone
   \<and> normalization_repository (\<lambda>v. [])
       [''./airbyte-integrations/connectors/destination-foo/metadata.yaml'' \<mapsto>
          File ''data: {normalizationConfig: {}}'']
       (\<lambda>text. Some (PDict [(''data'', PDict [(''normalizationConfig'', PDict [])])]))
       (Connector ''destination-foo'') = Inl KeyError
   \<and> normalization_tag (\<lambda>v. [])
       [''./airbyte-integrations/connectors/destination-foo/metadata.yaml'' \<mapsto>
          File ''data: {normalizationConfig: {}}'']
       (\<lambda>text. Some (PDict [(''data'', PDict [(''normalizationConfig'', PDict [])])]))
       (Connector ''destination-foo'') = Inl KeyError"
proof -
  let ?c = "Connector ''destination-foo''"
  let ?fmt = "\<lambda>v::pyval. ([] :: string)"
  let ?l1 = "\<lambda>text::string. (None :: pyval option)"
  let ?fs1 = "Map.empty :: filesystem"
  let ?m2 = "[(''releaseStage'', PStr ''alpha'')]"
  let ?fs2 = "[''./airbyte-integrations/connectors/destination-foo/metadata.yaml'' \<mapsto>
          File ''data: {releaseStage: alpha}'']"
  let ?l2 = "\<lambda>text::string. (Some (PDict [(''data'', PDict ?m2)]) :: pyval option)"
  let ?m3 = "[(''normalizationConfig'', PDict [])]"
  let ?fs3 = "[''./airbyte-integrations/connectors/destination-foo/metadata.yaml'' \<mapsto>
          File ''data: {normalizationConfig: {}}'']"
  let ?l3 = "\<lambda>text::string. (Some (PDict [(''data'', PDict ?m3)]) :: pyval option)"
  have 1: "metadata ?fs1 ?l1 ?c = Inr PNone"
    by (simp add: metadata_eval)
  have 2: "metadata ?fs2 ?l2 ?c = Inr (PDict ?m2)
      \<and> map_of ?m2 ''normalizationConfig'' \<in> {None, Some PNone}"
    by (simp add: metadata_eval)
  have 3: "metadata ?fs3 ?l3 ?c = Inr (PDict ?m3)
      \<and> map_of ?m3 ''normalizationConfig'' = Some (PDict [])
      \<and> map_of [] ''normalizationRepository'' = (None :: pyval option)
      \<and> map_of [] ''normalizationTag'' = (None :: pyval option)"
    by (simp add: metadata_eval)
  from 1 C7_optional_accessors [of ?fs1 ?l1 ?c ?fmt]
  have a: "release_stage ?fs1 ?l1 ?c = Inr PNone"
    "supports_normalization ?fs1 ?l1 ?c = Inr PNone"
    "normalization_tag ?fmt ?fs1 ?l1 ?c = Inr PNone"
    by blast+
  from 2 C7_optional_accessors [of ?fs2 ?l2 ?c ?fmt ?m2]
  have b: "allowed_hosts ?fs2 ?l2 ?c
        = Inr (case map_of ?m2 ''allowedHosts'' of None \<Rightarrow> PNone | Some v \<Rightarrow> v)"
    "release_stage ?fs2 ?l2 ?c
        = Inr (case map_of ?m2 ''releaseStage'' of None \<Rightarrow> PNone | Some v \<Rightarrow> v)"
    "supports_normalization ?fs2 ?l2 ?c
        = Inr (if ?m2 = [] then PDict []
               else PBool (map_of ?m2 ''normalizationConfig'' \<notin> {None, Some PNone}))"
    "normalization_repository ?fmt ?fs2 ?l2 ?c = Inr PNone"
    by blast+
  from 3 C7_optional_accessors [of ?fs3 ?l3 ?c ?fmt ?m3 "[]"]
  have c: "normalization_repository ?fmt ?fs3 ?l3 ?c = Inl KeyError"
    "normalization_tag ?fmt ?fs3 ?l3 ?c = Inl KeyError"
    by blast+
  from b have b': "allowed_hosts ?fs2 ?l2 ?c = Inr PNone"
    "release_stage ?fs2 ?l2 ?c = Inr (PStr ''alpha'')"
    "supports_normalization ?fs2 ?l2 ?c = Inr (PBool False)"
    by simp_all
  from a b' b(4) c show ?thesis by blast
qed

section \<open>Change detection\<close>

lemma py_split_append:
  "py_split sep (a @ sep # b) = py_split sep a @ py_split sep b"
  by (induction a) (auto split: list.splits simp: py_split_not_Nil)

lemma third_component_exists:
  assumes "startswith p SOURCE_CONNECTOR_PATH_PREFIX"
  shows "2 < length (py_split CHR ''/'' p)"
proof -
  from assms obtain rest where
    p: "p = ''airbyte-integrations'' @ CHR ''/'' # ''connectors'' @ CHR ''/'' # ''source-'' @ rest"
    by (auto simp: startswith_prefix prefix_def SOURCE_CONNECTOR_PATH_PREFIX_def
        CONNECTOR_PATH_PREFIX_def)
  have "py_split CHR ''/'' p
      = py_split CHR ''/'' ''airbyte-integrations'' @ py_split CHR ''/'' ''connectors''
        @ py_split CHR ''/'' (''source-'' @ rest)"
    unfolding p by (simp only: py_split_append)
  moreover have "py_split CHR ''/'' (''source-'' @ rest) \<noteq> []"
    by (rule py_split_not_Nil)
  ultimately show ?thesis
    by (cases "py_split CHR ''/'' (''source-'' @ rest)") simp_all
qed

lemma connectors_of_paths_image:
  "\<forall>p\<in>set ps. 2 < length (py_split CHR ''/'' p) \<Longrightarrow>
   connectors_of_paths ps = Inr ((\<lambda>p. Connector (py_split CHR ''/'' p ! 2)) ` set ps)"
  by (induction ps) (simp_all add: get_connector_name_from_path_def py_index_def)

text \<open>
  Claim C8. Of the lines of the diff output, \<open>get_changed_acceptance_test_config\<close> keeps
  exactly those that start with \<open>airbyte-integrations/connectors/source-\<close> and end with
  \<open>acceptance-test-config.yml\<close>, and returns the set of connectors named by the third
  field of each kept path at \<open>/\<close>; it raises nothing, since every path with that prefix
  has a third field, and for a path \<open>airbyte-integrations/connectors/n/f\<close> that field
  is \<open>n\<close>. The two paths of the scenario give the single connector \<open>source-foo\<close>.
\<close>

theorem C8_changed_acceptance_test_config:
  "get_changed_acceptance_test_config git_diff DIFFED_BRANCH diff_regex =
     Inr ((\<lambda>p. Connector (py_split CHR ''/'' p ! 2)) `
          {p \<in> set (py_split CHR 0x0A (git_diff
                  (case diff_regex of
                     None \<Rightarrow> [''--name-only'', DIFFED_BRANCH]
                   | Some r \<Rightarrow> [''--name-only'', ''-G'' @ r, DIFFED_BRANCH]))).
             startswith p ''airbyte-integrations/connectors/source-''
             \<and> endswith p ''acceptance-test-config.yml''})
   \<and> (startswith p ''airbyte-integrations/connectors/source-'' \<longrightarrow>
        get_connector_name_from_path p = Inr (py_split CHR ''/'' p ! 2))
   \<and> (CHR ''/'' \<notin> set n \<longrightarrow>
        py_split CHR ''/'' (''airbyte-integrations/connectors/'' @ n @ ''/'' @ f) ! 2 = n)"
proof -
  have pre: "SOURCE_CONNECTOR_PATH_PREFIX = ''airbyte-integrations/connectors/source-''"
    by (simp add: SOURCE_CONNECTOR_PATH_PREFIX_def CONNECTOR_PATH_PREFIX_def)
  have "connectors_of_paths (remdups (filter
          (\<lambda>p. startswith p SOURCE_CONNECTOR_PATH_PREFIX
               \<and> endswith p ACCEPTANCE_TEST_CONFIG_FILE_NAME) xs))
        = Inr ((\<lambda>p. Connector (py_split CHR ''/'' p ! 2)) `
            {p \<in> set xs. startswith p SOURCE_CONNECTOR_PATH_PREFIX
                          \<and> endswith p ACCEPTANCE_TEST_CONFIG_FILE_NAME})" for xs
    by (subst connectors_of_paths_image) (auto simp: third_component_exists)
  then have "get_changed_acceptance_test_config git_diff DIFFED_BRANCH diff_regex =
     Inr ((\<lambda>p. Connector (py_split CHR ''/'' p ! 2)) `
          {p \<in> set (py_split CHR 0x0A (git_diff
                  (case diff_regex of
                     None \<Rightarrow> [''--name-only'', DIFFED_BRANCH]
                   | Some r \<Rightarrow> [''--name-only'', ''-G'' @ r, DIFFED_BRANCH]))).
             startswith p SOURCE_CONNECTOR_PATH_PREFIX
             \<and> endswith p ACCEPTANCE_TEST_CONFIG_FILE_NAME})"
    by (simp add: get_changed_acceptance_test_config_def)
  moreover have "get_connector_name_from_path p = Inr (py_split CHR ''/'' p ! 2)"
    if "startswith p SOURCE_CONNECTOR_PATH_PREFIX"
    using third_component_exists [OF that]
    by (simp add: get_connector_name_from_path_def py_index_def)
  moreover have "py_split CHR ''/'' (''airbyte-integrations/connectors/'' @ n @ ''/'' @ f) ! 2 = n"
    if "CHR ''/'' \<notin> set n"
  proof -
    have "py_split CHR ''/''
            (''airbyte-integrations'' @ CHR ''/'' # ''connectors'' @ CHR ''/'' # n @ CHR ''/'' # f)
          = [''airbyte-integrations'', ''connectors'', n] @ py_split CHR ''/'' f"
      using that by (simp add: py_split_append py_split_no_sep)
    then show ?thesis by simp
  qed
  ultimately show ?thesis
    by (simp add: pre ACCEPTANCE_TEST_CONFIG_FILE_NAME_def)
qed

theorem C8_changed_acceptance_test_config_witness:
  "get_changed_acceptance_test_config
     (\<lambda>args. ''airbyte-integrations/connectors/source-foo/acceptance-test-config.yml\<newline>airbyte-integrations/connectors/destination-bar/acceptance-test-config.yml'')
     ''origin/master'' None
   = Inr {Connector ''source-foo''}
   \<and> get_connector_name_from_path
       ''airbyte-integrations/connectors/source-foo/acceptance-test-config.yml''
     = Inr ''source-foo''"
proof -
  let ?a = "''airbyte-integrations/connectors/source-foo/acceptance-test-config.yml''"
  let ?b = "''airbyte-integrations/connectors/destination-bar/acceptance-test-config.yml''"
  let ?out = "''airbyte-integrations/connectors/source-foo/acceptance-test-config.yml\<newline>airbyte-integrations/connectors/destination-bar/acceptance-test-config.yml''"
  let ?git = "\<lambda>args::string list. ?out"
  let ?P = "\<lambda>p. startswith p ''airbyte-integrations/connectors/source-''
             \<and> endswith p ''acceptance-test-config.yml''"
  have lines: "py_split CHR 0x0A ?out = [?a, ?b]"
    by simp
  have "filter ?P [?a, ?b] = [?a]"
    by (simp add: endswith_def)
  then have "set (filter ?P [?a, ?b]) = {?a}"
    by (simp only: list.set)
  then have keep: "{p \<in> set [?a, ?b]. ?P p} = {?a}"
    by (simp only: set_filter)
  have sw: "startswith ?a ''airbyte-integrations/connectors/source-''"
    by simp
  have no_slash: "CHR ''/'' \<notin> set ''source-foo''"
    by simp
  note inst = C8_changed_acceptance_test_config
      [of ?git "''origin/master''" None ?a "''source-foo''" "''acceptance-test-config.yml''"]
  from no_slash inst [THEN conjunct2, THEN conjunct2]
  have "py_split CHR ''/''
          (''airbyte-integrations/connectors/'' @ ''source-foo'' @ ''/'' @ ''acceptance-test-config.yml'') ! 2
        = ''source-foo''"
    by (rule rev_mp)
  then have third: "py_split CHR ''/'' ?a ! 2 = ''source-foo''"
    by (simp only: append.simps)
  have "get_changed_acceptance_test_config ?git ''origin/master'' None
      = Inr ((\<lambda>p. Connector (py_split CHR ''/'' p ! 2)) ` {p \<in> set (py_split CHR 0x0A ?out). ?P p})"
    by (rule inst [THEN conjunct1])
  then have 1: "get_changed_acceptance_test_config ?git ''origin/master'' None
      = Inr {Connector ''source-foo''}"
    by (simp only: lines keep third image_insert image_empty)
  from sw inst [THEN conjunct2, THEN conjunct1]
  have "get_connector_name_from_path ?a = Inr (py_split CHR ''/'' ?a ! 2)"
    by (rule rev_mp)
  then have 2: "get_connector_name_from_path ?a = Inr ''source-foo''"
    by (simp only: third)
  from 1 2 show ?thesis by (rule conjI)
qed

text \<open>
  Claim C10. On the same diff output and without a content pattern, both detectors
  return a set, and the connectors of \<open>get_changed_acceptance_test_config\<close> are among
  those of \<open>get_changed_connectors\<close>.
\<close>

theorem C10_acceptance_config_subset:
  "\<exists>A C. get_changed_acceptance_test_config git_diff DIFFED_BRANCH None = Inr A
         \<and> get_changed_connectors git_diff DIFFED_BRANCH = Inr C
         \<and> A \<subseteq> C"
proof -
  let ?lines = "py_split CHR 0x0A (git_diff [''--name-only'', DIFFED_BRANCH])"
  let ?third = "\<lambda>p. Connector (py_split CHR ''/'' p ! 2)"
  let ?A = "?third ` {p \<in> set ?lines. startswith p SOURCE_CONNECTOR_PATH_PREFIX
                          \<and> endswith p ACCEPTANCE_TEST_CONFIG_FILE_NAME}"
  let ?C = "?third ` {p \<in> set ?lines. startswith p SOURCE_CONNECTOR_PATH_PREFIX}"
  have "get_changed_acceptance_test_config git_diff DIFFED_BRANCH None = Inr ?A"
    unfolding get_changed_acceptance_test_config_def
    by (simp, subst connectors_of_paths_image) (auto simp: third_component_exists)
  moreover have "get_changed_connectors git_diff DIFFED_BRANCH = Inr ?C"
    unfolding get_changed_connectors_def
    by (simp, subst connectors_of_paths_image) (auto simp: third_component_exists)
  moreover have "?A \<subseteq> ?C"
    by blast
  ultimately show ?thesis
    by blast
qed

lemma parent_name_of_file_in_dir:
  assumes "CHR ''/'' \<notin> set n" "n \<noteq> []" "n \<noteq> ''.''"
  shows "parent_name (d @ ''/'' @ n @ ''/'' @ METADATA_FILE_NAME) = n"
proof -
  have "py_split CHR ''/'' (d @ CHR ''/'' # n @ CHR ''/'' # METADATA_FILE_NAME)
      = py_split CHR ''/'' d @ [n, METADATA_FILE_NAME]"
    using assms(1)
    by (simp add: py_split_append py_split_no_sep METADATA_FILE_NAME_def)
  then have "path_parts (d @ ''/'' @ n @ ''/'' @ METADATA_FILE_NAME)
      = path_parts d @ [n, METADATA_FILE_NAME]"
    using assms(2,3) by (simp add: path_parts_def METADATA_FILE_NAME_def)
  then show ?thesis
    by (simp add: parent_name_def butlast_append)
qed

text \<open>
  Claim C9. \<open>get_all_released_connectors\<close> returns the connectors named by the parent
  directory of each metadata file found, the files whose path contains \<open>-scaffold-\<close>
  left out; the parent directory of \<open>d/n/metadata.yaml\<close> is named \<open>n\<close>. The three
  files of the scenario give the connectors \<open>source-a\<close> and \<open>destination-c\<close>.
\<close>

theorem C9_all_released_connectors:
  "get_all_released_connectors glob_result =
     (\<lambda>p. Connector (parent_name p)) ` {p \<in> set glob_result. \<not> py_in ''-scaffold-'' p}
   \<and> (CHR ''/'' \<notin> set n \<and> n \<noteq> [] \<and> n \<noteq> ''.'' \<longrightarrow>
        parent_name (d @ ''/'' @ n @ ''/'' @ METADATA_FILE_NAME) = n)"
  using parent_name_of_file_in_dir [of n d]
  by (auto simp: get_all_released_connectors_def)

theorem C9_all_released_connectors_witness:
  "get_all_released_connectors
     [''airbyte-integrations/connectors/source-a/metadata.yaml'',
      ''airbyte-integrations/connectors/source-b-scaffold-test/metadata.yaml'',
      ''airbyte-integrations/connectors/destination-c/metadata.yaml'']
   = {Connector ''source-a'', Connector ''destination-c''}"
proof -
  let ?a = "''airbyte-integrations/connectors/source-a/metadata.yaml''"
  let ?b = "''airbyte-integrations/connectors/source-b-scaffold-test/metadata.yaml''"
  let ?c = "''airbyte-integrations/connectors/destination-c/metadata.yaml''"
  let ?d = "''airbyte-integrations/connectors''"
  let ?P = "\<lambda>p. \<not> py_in ''-scaffold-'' p"
  have "filter ?P [?a, ?b, ?c] = [?a, ?c]"
    by simp
  then have "set (filter ?P [?a, ?b, ?c]) = {?a, ?c}"
    by (simp only: list.set)
  then have keep: "{p \<in> set [?a, ?b, ?c]. ?P p} = {?a, ?c}"
    by (simp only: set_filter)
  have na: "CHR ''/'' \<notin> set ''source-a'' \<and> ''source-a'' \<noteq> [] \<and> ''source-a'' \<noteq> ''.''"
    by simp
  have nc: "CHR ''/'' \<notin> set ''destination-c'' \<and> ''destination-c'' \<noteq> []
      \<and> ''destination-c'' \<noteq> ''.''"
    by simp
  from na C9_all_released_connectors [of "[?a, ?b, ?c]" "''source-a''" ?d, THEN conjunct2]
  have "parent_name (?d @ ''/'' @ ''source-a'' @ ''/'' @ METADATA_FILE_NAME) = ''source-a''"
    by (rule rev_mp)
  then have pa: "parent_name ?a = ''source-a''"
    by (simp only: METADATA_FILE_NAME_def append.simps)
  from nc C9_all_released_connectors [of "[?a, ?b, ?c]" "''destination-c''" ?d, THEN conjunct2]
  have "parent_name (?d @ ''/'' @ ''destination-c'' @ ''/'' @ METADATA_FILE_NAME)
      = ''destination-c''"
    by (rule rev_mp)
  then have pc: "parent_name ?c = ''destination-c''"
    by (simp only: METADATA_FILE_NAME_def append.simps)
  have "get_all_released_connectors [?a, ?b, ?c]
      = (\<lambda>p. Connector (parent_name p)) ` {p \<in> set [?a, ?b, ?c]. ?P p}"
    by (rule C9_all_released_connectors [of "[?a, ?b, ?c]" "''source-a''" ?d, THEN conjunct1])
  then show ?thesis
    by (simp only: keep pa pc image_insert image_empty)
qed

end
